theory Spec2Isabelle
  imports Complex_Main
begin

section \<open>Python values and errors\<close>

text \<open>
  The module \<open>mirage/catalogs/create_catalog.py\<close> builds point-source catalogs from two
  remote services. Floating-point numbers are modelled by \<open>real\<close>, numpy arrays by lists,
  and every exception that the modelled statements can raise is a value of \<open>error\<close>.
\<close>

datatype error =
    KeyError string
  | IndexError
  | ValueError
  | UnboundLocalError string
  | ServiceError string

text \<open>
  Element-wise numpy operators on one-dimensional arrays: equal shapes are combined
  position by position, an array of length one is broadcast, any other pair of shapes
  raises \<open>ValueError\<close>.
\<close>

definition broadcast2 :: "('a \<Rightarrow> 'b \<Rightarrow> 'c) \<Rightarrow> 'a list \<Rightarrow> 'b list \<Rightarrow> error + 'c list" where
  "broadcast2 f xs ys =
     (if length xs = length ys then Inr (map2 f xs ys)
      else if length xs = 1 then Inr (map (f (hd xs)) ys)
      else if length ys = 1 then Inr (map (\<lambda>x. f x (hd ys)) xs)
      else Inl ValueError)"

text \<open>\<open>~m\<close> on a boolean array.\<close>

definition invert :: "bool list \<Rightarrow> bool list" where
  "invert m = map Not m"

text \<open>
  \<open>a[m]\<close> with a boolean array \<open>m\<close>: the entries of \<open>a\<close> at the positions where \<open>m\<close> is
  true, in order; numpy raises \<open>IndexError\<close> when the shapes differ.
\<close>

definition boolean_index :: "'a list \<Rightarrow> bool list \<Rightarrow> error + 'a list" where
  "boolean_index a m =
     (if length m = length a then Inr (map fst (filter snd (zip a m)))
      else Inl IndexError)"

section \<open>Query-result tables\<close>

text \<open>
  A masked column carries its raw values (\<open>.data.data\<close>) and the per-row missing
  flags (\<open>.data.mask\<close>). A table maps column names to columns; indexing a table by a
  name it does not have raises \<open>KeyError\<close>.
\<close>

record masked_column =
  data :: "real list"
  mask :: "bool list"

type_synonym table = "string \<Rightarrow> masked_column option"

definition getitem :: "(string \<Rightarrow> 'c option) \<Rightarrow> string \<Rightarrow> error + 'c" where
  "getitem t key = (case t key of None \<Rightarrow> Inl (KeyError key) | Some c \<Rightarrow> Inr c)"

text \<open>
  The fill value of the floating-point magnitude columns, as line 35 of the source
  records it: \<open>The fill_value is 1e20\<close>.
\<close>

definition default_fill_value :: real where
  "default_fill_value = 10 ^ 20"

text \<open>
  \<open>col.filled().data\<close>, called with no argument: the values of the whole column with
  the fill value at every flagged row.
\<close>

definition filled :: "masked_column \<Rightarrow> real list" where
  "filled c = map2 (\<lambda>x m. if m then default_fill_value else x) (data c) (mask c)"

text \<open>
  Every column of a table has the table's number of rows, and a column's mask has the
  shape of its values.
\<close>

definition table_rows :: "table \<Rightarrow> nat \<Rightarrow> bool" where
  "table_rows t n \<longleftrightarrow>
     (\<forall>key c. t key = Some c \<longrightarrow> length (data c) = n \<and> length (mask c) = n)"

section \<open>The row-validity filter\<close>

definition filter_bad_ra_dec :: "table \<Rightarrow> error + bool list" where
  "filter_bad_ra_dec table_data =
     (case getitem table_data ''ra'' of Inl e \<Rightarrow> Inl e | Inr ra_col \<Rightarrow>
     (let ra_data = data ra_col; ra_mask = invert (mask ra_col) in
     (case getitem table_data ''dec'' of Inl e \<Rightarrow> Inl e | Inr dec_col \<Rightarrow>
     (let dec_data = data dec_col; dec_mask = invert (mask dec_col) in
     (case broadcast2 (\<and>) ra_mask dec_mask of Inl e \<Rightarrow> Inl e | Inr position_mask \<Rightarrow>
      Inr position_mask)))))"

section \<open>Angles with units\<close>

text \<open>
  The two angular units the module uses. A quantity is a number with its unit;
  \<open>to\<close> converts it, and adding or subtracting two quantities converts the right
  operand to the unit of the left one, which is the unit of the result.
\<close>

datatype angle_unit = u_deg | u_arcsec

fun per_degree :: "angle_unit \<Rightarrow> real" where
  "per_degree u_deg = 1"
| "per_degree u_arcsec = 3600"

datatype quantity = Quantity (q_value: real) (q_unit: angle_unit)

definition to :: "quantity \<Rightarrow> angle_unit \<Rightarrow> quantity" where
  "to q u = Quantity (q_value q * per_degree u / per_degree (q_unit q)) u"

instantiation quantity :: "{plus, minus, scaleR}"
begin

definition plus_quantity :: "quantity \<Rightarrow> quantity \<Rightarrow> quantity" where
  "plus_quantity a b = Quantity (q_value a + q_value (to b (q_unit a))) (q_unit a)"

definition minus_quantity :: "quantity \<Rightarrow> quantity \<Rightarrow> quantity" where
  "minus_quantity a b = Quantity (q_value a - q_value (to b (q_unit a))) (q_unit a)"

definition scaleR_quantity :: "real \<Rightarrow> quantity \<Rightarrow> quantity" where
  "scaleR_quantity r a = Quantity (r * q_value a) (q_unit a)"

instance ..

end

text \<open>\<open>q * x\<close> for a quantity and a plain number.\<close>

definition times_number :: "quantity \<Rightarrow> real \<Rightarrow> quantity" where
  "times_number q x = Quantity (q_value q * x) (q_unit q)"

text \<open>
  The product of two angles is a solid angle whose unit is the product of the two
  units; \<open>area_to\<close> converts it to another product unit.
\<close>

datatype area_quantity = AreaQuantity (a_value: real) (a_unit: "angle_unit \<times> angle_unit")

definition times_quantity :: "quantity \<Rightarrow> quantity \<Rightarrow> area_quantity" where
  "times_quantity a b = AreaQuantity (q_value a * q_value b) (q_unit a, q_unit b)"

definition area_to :: "area_quantity \<Rightarrow> angle_unit \<times> angle_unit \<Rightarrow> area_quantity" where
  "area_to a u =
     AreaQuantity
       (a_value a * (per_degree (fst u) * per_degree (snd u))
          / (per_degree (fst (a_unit a)) * per_degree (snd (a_unit a)))) u"

section \<open>The catalog object\<close>

text \<open>
  Modelled from the spec: the class \<open>PointSourceCatalog\<close> of
  \<open>mirage.catalogs.catalog_generator\<close> is imported by the module and is not part of
  the sources at hand. A catalog is an ordered collection of sources, each with a right
  ascension and a declination, and zero or more named magnitude columns keyed by
  (instrument, filter) pairs. Its invariant is that all magnitude columns have the same
  length as the position arrays: the class keeps it, and adding a column of another
  length raises \<open>ValueError\<close>.
\<close>

record 'p catalog =
  cat_ra :: "'p list"
  cat_dec :: "'p list"
  magnitudes :: "(string \<times> string) \<Rightarrow> real list option"

definition PointSourceCatalog :: "'p list \<Rightarrow> 'p list \<Rightarrow> 'p catalog" where
  "PointSourceCatalog ra dec = \<lparr>cat_ra = ra, cat_dec = dec, magnitudes = Map.empty\<rparr>"

definition add_magnitude_column ::
  "'p catalog \<Rightarrow> real list \<Rightarrow> string \<Rightarrow> string \<Rightarrow> error + 'p catalog" where
  "add_magnitude_column cat magnitude_list instrument filter_name =
     (if length magnitude_list = length (cat_ra cat)
      then Inr (cat\<lparr>magnitudes :=
                  (magnitudes cat)((instrument, filter_name) \<mapsto> magnitude_list)\<rparr>)
      else Inl ValueError)"


section \<open>The remote services and the process state\<close>

text \<open>
  A box query to the point-source catalog service, as \<open>Irsa.query_region\<close> sends it:
  the position (the two numbers that the source formats into one string), the catalog
  name, the shape, the width with its unit, and the row limit of the client at the time
  of the call.
\<close>

record irsa_query =
  iq_position :: "real \<times> real"
  iq_catalog :: string
  iq_spatial :: string
  iq_width :: quantity
  iq_row_limit :: int

text \<open>A query to the stellar-population model service, as \<open>Besancon.query\<close> sends it.\<close>

record besancon_query =
  bq_glon :: real
  bq_glat :: real
  bq_smallfield :: bool
  bq_area :: real
  bq_colors_limits :: "(string \<times> real \<times> real) list"
  bq_mag_limits :: "(string \<times> real \<times> real) list"
  bq_retrieve_file :: bool
  bq_email :: string

text \<open>
  The collaborators outside the module: what the catalog service answers to a query,
  what the model service answers (a table of plain columns), and the transform of an
  equatorial position to galactic longitude and latitude. Each may fail.
\<close>

record services =
  fp_psc :: "irsa_query \<Rightarrow> error + table"
  besancon_model :: "besancon_query \<Rightarrow> error + (string \<Rightarrow> real list option)"
  galactic :: "quantity \<Rightarrow> quantity \<Rightarrow> error + real \<times> real"

text \<open>
  The mutable state of the process: the class attribute \<open>Irsa.ROW_LIMIT\<close>, the requests
  sent so far to each service, and the state of numpy's global random generator, the
  sequence of numbers it will draw next.
\<close>

record world =
  Irsa_ROW_LIMIT :: int
  irsa_requests :: "irsa_query list"
  besancon_requests :: "besancon_query list"
  random_state :: "nat \<Rightarrow> real"

definition Irsa_query_region ::
  "services \<Rightarrow> real \<times> real \<Rightarrow> string \<Rightarrow> string \<Rightarrow> quantity \<Rightarrow> world \<Rightarrow> (error + table) \<times> world" where
  "Irsa_query_region env ra_dec_string catalog spatial width s =
     (let q = \<lparr>iq_position = ra_dec_string, iq_catalog = catalog, iq_spatial = spatial,
               iq_width = width, iq_row_limit = Irsa_ROW_LIMIT s\<rparr>
      in (fp_psc env q, s\<lparr>irsa_requests := irsa_requests s @ [q]\<rparr>))"

definition Besancon_query :: "services \<Rightarrow> besancon_query \<Rightarrow> world \<Rightarrow>
    (error + (string \<Rightarrow> real list option)) \<times> world" where
  "Besancon_query env q s =
     (besancon_model env q, s\<lparr>besancon_requests := besancon_requests s @ [q]\<rparr>)"

text \<open>\<open>np.random.random(n)\<close>: the next \<open>n\<close> draws of the generator, which advances.\<close>

definition np_random_random :: "nat \<Rightarrow> world \<Rightarrow> real list \<times> world" where
  "np_random_random n s =
     (map (random_state s) [0..<n], s\<lparr>random_state := (\<lambda>i. random_state s (i + n))\<rparr>)"

text \<open>The draws of \<open>np.random.random\<close> lie in the half-open interval from 0 to 1.\<close>

definition unit_interval_draws :: "world \<Rightarrow> bool" where
  "unit_interval_draws s \<longleftrightarrow> (\<forall>i. 0 \<le> random_state s i \<and> random_state s i < 1)"

section \<open>The random position generator\<close>

definition generate_ra_dec ::
  "nat \<Rightarrow> 'a \<Rightarrow> 'a \<Rightarrow> 'a \<Rightarrow> 'a \<Rightarrow> world \<Rightarrow> ('a::{plus,minus,scaleR} list \<times> 'a list) \<times> world" where
  "generate_ra_dec number_of_stars ra_min ra_max dec_min dec_max s =
     (let delta_ra = ra_max - ra_min;
          (r1, s1) = np_random_random number_of_stars s;
          ra_list = map (\<lambda>r. r *\<^sub>R delta_ra + ra_min) r1;
          delta_dec = dec_max - dec_min;
          (r2, s2) = np_random_random number_of_stars s1;
          dec_list = map (\<lambda>r. r *\<^sub>R delta_dec + dec_min) r2
      in ((ra_list, dec_list), s2))"

section \<open>The remote-survey query\<close>

text \<open>
  The loop over the three magnitude keys: each column is read from the table, filled,
  and added to the catalog under the instrument name \<open>2MASS\<close>.
\<close>

fun add_filled_columns :: "table \<Rightarrow> string list \<Rightarrow> real catalog \<Rightarrow> error + real catalog" where
  "add_filled_columns query_table [] cat = Inr cat"
| "add_filled_columns query_table (key # keys) cat =
     (case getitem query_table key of Inl e \<Rightarrow> Inl e | Inr col \<Rightarrow>
     (let data = filled col in
     (case add_magnitude_column cat data ''2MASS'' key of Inl e \<Rightarrow> Inl e | Inr cat \<Rightarrow>
      add_filled_columns query_table keys cat)))"

definition get_2MASS_ptsrc_catalog ::
  "services \<Rightarrow> real \<Rightarrow> real \<Rightarrow> real \<Rightarrow> world \<Rightarrow> (error + real catalog) \<times> world" where
  "get_2MASS_ptsrc_catalog env ra dec box_width s =
     (let s0 = s\<lparr>Irsa_ROW_LIMIT := 1000000\<rparr>;
          ra_dec_string = (ra, dec);
          (response, s1) = Irsa_query_region env ra_dec_string ''fp_psc'' ''Box''
                             (Quantity box_width u_arcsec) s0
      in (case response of Inl e \<Rightarrow> (Inl e, s1) | Inr query_table \<Rightarrow>
         (case filter_bad_ra_dec query_table of Inl e \<Rightarrow> (Inl e, s1) | Inr radec_mask \<Rightarrow>
         (case getitem query_table ''ra'' of Inl e \<Rightarrow> (Inl e, s1) | Inr ra_col \<Rightarrow>
         (case boolean_index (data ra_col) radec_mask of Inl e \<Rightarrow> (Inl e, s1) | Inr ra_kept \<Rightarrow>
         (case getitem query_table ''dec'' of Inl e \<Rightarrow> (Inl e, s1) | Inr dec_col \<Rightarrow>
         (case boolean_index (data dec_col) radec_mask of Inl e \<Rightarrow> (Inl e, s1) | Inr dec_kept \<Rightarrow>
         (let cat = PointSourceCatalog ra_kept dec_kept in
          (add_filled_columns query_table [''j_m'', ''h_m'', ''k_m''] cat, s1)))))))))"

section \<open>The stellar-population model query\<close>

text \<open>
  The local variables \<open>coord1\<close> and \<open>coord2\<close> are bound in the two branches of the test
  on \<open>coords\<close> and in no other place; reading them unbound raises \<open>UnboundLocalError\<close>.
  The arguments of \<open>Besancon.query\<close> are evaluated before the call is made.
\<close>

definition besancon ::
  "services \<Rightarrow> real \<Rightarrow> real \<Rightarrow> real \<Rightarrow> string \<Rightarrow> string \<Rightarrow> real \<times> real \<Rightarrow> world \<Rightarrow>
     (error + quantity catalog) \<times> world" where
  "besancon env ra0 dec0 box_width0 coords email kmag_limits s =
     (let ra = Quantity ra0 u_deg;
          dec = Quantity dec0 u_deg;
          box_width = Quantity box_width0 u_arcsec
      in
     (case (if coords = ''ra_dec'' then
              (case galactic env ra dec of Inl e \<Rightarrow> Inl e
               | Inr (l, b) \<Rightarrow> Inr (Some (l, b)))
            else if coords = ''galactic'' then Inr (Some (q_value ra, q_value dec))
            else Inr None)
      of Inl e \<Rightarrow> (Inl e, s) | Inr coord12 \<Rightarrow>
     (let area = times_quantity box_width box_width;
          area = area_to area (u_deg, u_deg)
      in
     (case coord12 of None \<Rightarrow> (Inl (UnboundLocalError ''coord1''), s)
      | Some (coord1, coord2) \<Rightarrow>
     (let (response, s1) =
            Besancon_query env
              \<lparr>bq_glon = coord1, bq_glat = coord2, bq_smallfield = True,
               bq_area = a_value area,
               bq_colors_limits = [(''J-H'', - 99, 99), (''J-K'', - 99, 99),
                                   (''J-L'', - 99, 99), (''V-K'', - 99, 99)],
               bq_mag_limits = [(''K'', kmag_limits)],
               bq_retrieve_file = True, bq_email = email\<rparr> s
      in
     (case response of Inl e \<Rightarrow> (Inl e, s1) | Inr model \<Rightarrow>
     (case getitem model ''V'' of Inl e \<Rightarrow> (Inl e, s1) | Inr v \<Rightarrow>
     (case getitem model ''V-K'' of Inl e \<Rightarrow> (Inl e, s1) | Inr v_k \<Rightarrow>
     (case broadcast2 (-) v v_k of Inl e \<Rightarrow> (Inl e, s1) | Inr k_mags \<Rightarrow>
     (case getitem model ''J-K'' of Inl e \<Rightarrow> (Inl e, s1) | Inr j_k \<Rightarrow>
     (case broadcast2 (+) k_mags j_k of Inl e \<Rightarrow> (Inl e, s1) | Inr j_mags \<Rightarrow>
     (case getitem model ''J-H'' of Inl e \<Rightarrow> (Inl e, s1) | Inr j_h \<Rightarrow>
     (case broadcast2 (-) j_mags j_h of Inl e \<Rightarrow> (Inl e, s1) | Inr h_mags \<Rightarrow>
     (case getitem model ''J-L'' of Inl e \<Rightarrow> (Inl e, s1) | Inr j_l \<Rightarrow>
     (case broadcast2 (-) j_mags j_l of Inl e \<Rightarrow> (Inl e, s1) | Inr l_mags \<Rightarrow>
     (let half_width = times_number box_width 0.5;
          min_ra = ra - half_width;
          max_ra = ra + half_width;
          min_dec = dec - half_width;
          max_dec = dec + half_width;
          ((ra_values, dec_values), s2) =
            generate_ra_dec (length k_mags) min_ra max_ra min_dec max_dec s1;
          cat = PointSourceCatalog ra_values dec_values
      in
     (case add_magnitude_column cat j_mags ''Besancon'' ''j'' of Inl e \<Rightarrow> (Inl e, s2)
      | Inr cat \<Rightarrow>
     (case add_magnitude_column cat h_mags ''Besancon'' ''h'' of Inl e \<Rightarrow> (Inl e, s2)
      | Inr cat \<Rightarrow>
     (case add_magnitude_column cat k_mags ''Besancon'' ''k'' of Inl e \<Rightarrow> (Inl e, s2)
      | Inr cat \<Rightarrow>
     (case add_magnitude_column cat l_mags ''Besancon'' ''l'' of Inl e \<Rightarrow> (Inl e, s2)
      | Inr cat \<Rightarrow>
      (Inr cat, s2)))))))))))))))))))))"

section \<open>Sample data\<close>

text \<open>
  A query result of three rows: the second row has no right ascension, the third row
  has a position and no J magnitude.
\<close>

definition sample_table :: table where
  "sample_table =
     [''ra'' \<mapsto> \<lparr>data = [10, 10.1, 10.2], mask = [False, True, False]\<rparr>,
      ''dec'' \<mapsto> \<lparr>data = [- 5, - 5.1, - 5.2], mask = [False, False, False]\<rparr>,
      ''j_m'' \<mapsto> \<lparr>data = [12, 13, 14], mask = [False, False, True]\<rparr>,
      ''h_m'' \<mapsto> \<lparr>data = [11.5, 12.5, 13.5], mask = [False, False, False]\<rparr>,
      ''k_m'' \<mapsto> \<lparr>data = [11, 12, 13], mask = [False, False, False]\<rparr>]"


text \<open>An answer of the model service with two stars.\<close>

definition sample_model :: "string \<Rightarrow> real list option" where
  "sample_model =
     [''V'' \<mapsto> [15.0, 18], ''V-K'' \<mapsto> [2.0, 3], ''J-K'' \<mapsto> [1.0, 0.75],
      ''J-H'' \<mapsto> [0.5, 0.25], ''J-L'' \<mapsto> [1.5, 1]]"

definition sample_services :: services where
  "sample_services =
     \<lparr>fp_psc = (\<lambda>q. Inr sample_table),
      besancon_model = (\<lambda>q. Inr sample_model),
      galactic = (\<lambda>ra dec. Inl ValueError)\<rparr>"


definition sample_world :: world where
  "sample_world =
     \<lparr>Irsa_ROW_LIMIT = 500, irsa_requests = [], besancon_requests = [],
      random_state = (\<lambda>i. if even i then 1 / 4 else 3 / 4)\<rparr>"

text \<open>
  A catalog service that holds the given sources in the requested box and honours the
  row limit of the query: it answers with the first rows up to the limit when the limit
  is not negative.
\<close>

definition table_head :: "nat \<Rightarrow> table \<Rightarrow> table" where
  "table_head n t =
     (\<lambda>key. map_option (\<lambda>c. c\<lparr>data := take n (data c), mask := take n (mask c)\<rparr>) (t key))"

definition row_limited_service :: "table \<Rightarrow> irsa_query \<Rightarrow> error + table" where
  "row_limited_service sources q =
     Inr (if 0 \<le> iq_row_limit q then table_head (nat (iq_row_limit q)) sources else sources)"

text \<open>A box that holds 1000001 sources, each with a position and all three magnitudes.\<close>

definition crowded_box :: table where
  "crowded_box =
     (\<lambda>key. if key \<in> {''ra'', ''dec'', ''j_m'', ''h_m'', ''k_m''}
            then Some \<lparr>data = replicate 1000001 0, mask = replicate 1000001 False\<rparr>
            else None)"

definition crowded_services :: services where
  "crowded_services = sample_services\<lparr>fp_psc := row_limited_service crowded_box\<rparr>"

section \<open>Boolean masks and row selection\<close>

lemma upt_0_Suc: "[0..<Suc n] = 0 # map Suc [0..<n]"
  by (simp add: upt_conv_Cons map_Suc_upt del: upt_Suc)

lemma select_by_index:
  "length xs = length m \<Longrightarrow>
     map fst (filter snd (zip xs m)) = map (nth xs) (filter (nth m) [0..<length m])"
proof (induction xs m rule: list_induct2)
  case Nil
  then show ?case by simp
next
  case (Cons x xs b m)
  then show ?case
    by (simp add: upt_0_Suc filter_map comp_def del: upt_Suc)
qed

lemma boolean_index_select:
  "length m = length xs \<Longrightarrow>
     boolean_index xs m = Inr (map (nth xs) (filter (nth m) [0..<length xs]))"
  using select_by_index [of xs m] by (simp add: boolean_index_def)

lemma boolean_index_upt:
  assumes n: "length m = n"
  shows "boolean_index [0..<n] m = Inr (filter (nth m) [0..<n])"
proof -
  have "map (nth [0..<n]) (filter (nth m) [0..<n]) = filter (nth m) [0..<n]"
    by (rule map_idI) simp
  with n boolean_index_select [of m "[0..<n]"] show ?thesis
    by simp
qed

lemma filter_bad_ra_dec_Inr:
  assumes "table_data ''ra'' = Some ra_col" and "table_data ''dec'' = Some dec_col"
    and "table_rows table_data n"
  shows "filter_bad_ra_dec table_data =
           Inr (map2 (\<lambda>a b. \<not> a \<and> \<not> b) (mask ra_col) (mask dec_col))"
  using assms
  by (simp add: filter_bad_ra_dec_def getitem_def table_rows_def broadcast2_def invert_def
      zip_map1 zip_map2 split_def map_zip_map map_zip_map2)

lemma position_mask_nth:
  assumes "length a = n" and "length b = n"
  shows "filter (nth (map2 (\<lambda>a b. \<not> a \<and> \<not> b) a b)) [0..<n] =
           filter (\<lambda>i. \<not> a ! i \<and> \<not> b ! i) [0..<n]"
  using assms by (intro filter_cong) auto

lemma sample_table_rows: "table_rows sample_table 3"
  by (auto simp: table_rows_def sample_table_def split: if_splits)





section \<open>The row-validity filter\<close>

text \<open>
  Claim C6. For a table whose \<open>ra\<close> and \<open>dec\<close> columns are masked columns of \<open>n\<close> rows,
  \<open>filter_bad_ra_dec\<close> returns a boolean mask of length \<open>n\<close> that is true at a row exactly
  when neither the row's RA nor its Dec is flagged missing. Selecting the row numbers
  \<open>0, ..., n - 1\<close> with the mask retains exactly the rows with both flags clear, so no
  retained row has a flagged RA or Dec. The function only reads the table: it returns
  the mask and nothing else.
\<close>

theorem filter_bad_ra_dec_valid_rows:
  assumes "table_data ''ra'' = Some ra_col" and "table_data ''dec'' = Some dec_col"
    and "table_rows table_data n"
  shows "\<exists>position_mask. filter_bad_ra_dec table_data = Inr position_mask \<and>
           length position_mask = n \<and>
           (\<forall>i<n. position_mask ! i \<longleftrightarrow> \<not> mask ra_col ! i \<and> \<not> mask dec_col ! i) \<and>
           boolean_index [0..<n] position_mask =
             Inr (filter (\<lambda>i. \<not> mask ra_col ! i \<and> \<not> mask dec_col ! i) [0..<n])"
proof -
  let ?m = "map2 (\<lambda>a b. \<not> a \<and> \<not> b) (mask ra_col) (mask dec_col)"
  have len: "length (mask ra_col) = n" "length (mask dec_col) = n"
    using assms by (auto simp: table_rows_def)
  have "filter_bad_ra_dec table_data = Inr ?m"
    using assms by (rule filter_bad_ra_dec_Inr)
  moreover have "length ?m = n"
    using len by simp
  moreover have "\<forall>i<n. ?m ! i \<longleftrightarrow> \<not> mask ra_col ! i \<and> \<not> mask dec_col ! i"
    using len by simp
  moreover have "boolean_index [0..<n] ?m =
      Inr (filter (\<lambda>i. \<not> mask ra_col ! i \<and> \<not> mask dec_col ! i) [0..<n])"
    using len by (simp add: boolean_index_upt position_mask_nth)
  ultimately show ?thesis by blast
qed

theorem filter_bad_ra_dec_valid_rows_witness:
  "\<exists>position_mask. filter_bad_ra_dec sample_table = Inr position_mask \<and>
     length position_mask = 3 \<and> boolean_index [0..<3] position_mask = Inr [0, 2]"
proof -
  have ra: "sample_table ''ra'' =
      Some \<lparr>data = [10, 10.1, 10.2], mask = [False, True, False]\<rparr>"
    by (simp add: sample_table_def)
  have dec: "sample_table ''dec'' =
      Some \<lparr>data = [- 5, - 5.1, - 5.2], mask = [False, False, False]\<rparr>"
    by (simp add: sample_table_def)
  have three: "[0..<3] = [0, 1, 2]"
    by (simp add: upt_rec)
  from filter_bad_ra_dec_valid_rows [OF ra dec sample_table_rows]
  show ?thesis
    by (simp add: three) blast
qed

section \<open>The remote-survey query\<close>

lemma Irsa_query_region_response:
  "fst (Irsa_query_region env pos c sp w s) =
     fp_psc env \<lparr>iq_position = pos, iq_catalog = c, iq_spatial = sp,
                 iq_width = w, iq_row_limit = Irsa_ROW_LIMIT s\<rparr>"
  by (simp add: Irsa_query_region_def Let_def)

lemma get_2MASS_state:
  "snd (get_2MASS_ptsrc_catalog env ra dec box_width s) =
     s\<lparr>Irsa_ROW_LIMIT := 1000000,
       irsa_requests := irsa_requests s @
         [\<lparr>iq_position = (ra, dec), iq_catalog = ''fp_psc'', iq_spatial = ''Box'',
           iq_width = Quantity box_width u_arcsec, iq_row_limit = 1000000\<rparr>]\<rparr>"
  by (simp add: get_2MASS_ptsrc_catalog_def Irsa_query_region_def Let_def
      split: sum.splits)



lemma get_2MASS_catalog:
  assumes response: "fst (Irsa_query_region env (ra, dec) ''fp_psc'' ''Box''
                       (Quantity box_width u_arcsec) (s\<lparr>Irsa_ROW_LIMIT := 1000000\<rparr>)) = Inr t"
    and cols: "t ''ra'' = Some ra_col" "t ''dec'' = Some dec_col"
      "t ''j_m'' = Some j_col" "t ''h_m'' = Some h_col" "t ''k_m'' = Some k_col"
    and rows: "table_rows t n"
  shows "fst (get_2MASS_ptsrc_catalog env ra dec box_width s) =
     add_filled_columns t [''j_m'', ''h_m'', ''k_m'']
       (PointSourceCatalog
          (map (nth (data ra_col))
             (filter (\<lambda>i. \<not> mask ra_col ! i \<and> \<not> mask dec_col ! i) [0..<n]))
          (map (nth (data dec_col))
             (filter (\<lambda>i. \<not> mask ra_col ! i \<and> \<not> mask dec_col ! i) [0..<n])))"
proof -
  let ?m = "map2 (\<lambda>a b. \<not> a \<and> \<not> b) (mask ra_col) (mask dec_col)"
  let ?valid = "filter (\<lambda>i. \<not> mask ra_col ! i \<and> \<not> mask dec_col ! i) [0..<n]"
  have len: "length (data ra_col) = n" "length (mask ra_col) = n"
    "length (data dec_col) = n" "length (mask dec_col) = n"
    using rows cols by (auto simp: table_rows_def)
  have m: "filter_bad_ra_dec t = Inr ?m"
    using cols(1,2) rows by (rule filter_bad_ra_dec_Inr)
  have r: "boolean_index (data ra_col) ?m = Inr (map (nth (data ra_col)) ?valid)"
    using len by (simp add: boolean_index_select position_mask_nth)
  have d: "boolean_index (data dec_col) ?m = Inr (map (nth (data dec_col)) ?valid)"
    using len by (simp add: boolean_index_select position_mask_nth)
  obtain s1 where q: "Irsa_query_region env (ra, dec) ''fp_psc'' ''Box''
      (Quantity box_width u_arcsec) (s\<lparr>Irsa_ROW_LIMIT := 1000000\<rparr>) = (Inr t, s1)"
    using response by (metis prod.collapse)
  show ?thesis
    using cols(1,2)
    by (simp add: get_2MASS_ptsrc_catalog_def q m r d getitem_def
        del: add_filled_columns.simps)
qed

text \<open>
  When every row of the query result has a position, the catalog holds every row, in
  the order of the table.
\<close>

lemma get_2MASS_all_valid:
  assumes response: "fst (Irsa_query_region env (ra, dec) ''fp_psc'' ''Box''
                       (Quantity box_width u_arcsec) (s\<lparr>Irsa_ROW_LIMIT := 1000000\<rparr>)) = Inr t"
    and cols: "t ''ra'' = Some ra_col" "t ''dec'' = Some dec_col"
      "t ''j_m'' = Some j_col" "t ''h_m'' = Some h_col" "t ''k_m'' = Some k_col"
    and rows: "table_rows t n"
    and valid: "\<And>i. i < n \<Longrightarrow> \<not> mask ra_col ! i \<and> \<not> mask dec_col ! i"
  shows "fst (get_2MASS_ptsrc_catalog env ra dec box_width s) =
     Inr \<lparr>cat_ra = data ra_col, cat_dec = data dec_col,
          magnitudes = [(''2MASS'', ''j_m'') \<mapsto> filled j_col,
                        (''2MASS'', ''h_m'') \<mapsto> filled h_col,
                        (''2MASS'', ''k_m'') \<mapsto> filled k_col]\<rparr>"
proof -
  have len: "length (data ra_col) = n" "length (data dec_col) = n"
    "length (filled j_col) = n" "length (filled h_col) = n" "length (filled k_col) = n"
    using rows cols by (auto simp: table_rows_def filled_def)
  have all: "filter (\<lambda>i. \<not> mask ra_col ! i \<and> \<not> mask dec_col ! i) [0..<n] = [0..<n]"
    using valid by (intro filter_True) simp
  have kept: "map (nth (data ra_col)) [0..<n] = data ra_col"
    "map (nth (data dec_col)) [0..<n] = data dec_col"
    using len map_nth [of "data ra_col"] map_nth [of "data dec_col"] by simp_all
  show ?thesis
    unfolding get_2MASS_catalog [OF response cols rows] all kept
    using cols len
    by (simp add: getitem_def add_magnitude_column_def PointSourceCatalog_def)
qed

text \<open>
  When some row of the query result has a flagged RA or Dec, the position arrays are
  shorter than the magnitude columns, which are added whole, and the first column is
  refused: the function returns no catalog.
\<close>

lemma get_2MASS_flagged_position_raises:
  assumes response: "fst (Irsa_query_region env (ra, dec) ''fp_psc'' ''Box''
                       (Quantity box_width u_arcsec) (s\<lparr>Irsa_ROW_LIMIT := 1000000\<rparr>)) = Inr t"
    and cols: "t ''ra'' = Some ra_col" "t ''dec'' = Some dec_col"
      "t ''j_m'' = Some j_col" "t ''h_m'' = Some h_col" "t ''k_m'' = Some k_col"
    and rows: "table_rows t n"
    and flagged: "i < n" "mask ra_col ! i \<or> mask dec_col ! i"
  shows "fst (get_2MASS_ptsrc_catalog env ra dec box_width s) = Inl ValueError"
proof -
  let ?P = "\<lambda>i. \<not> mask ra_col ! i \<and> \<not> mask dec_col ! i"
  have "length (filter ?P [0..<n]) < length [0..<n]"
    using flagged by (intro length_filter_less [of i]) auto
  moreover have "length (filled j_col) = n"
    using rows cols by (auto simp: table_rows_def filled_def)
  ultimately show ?thesis
    unfolding get_2MASS_catalog [OF response cols rows]
    using cols
    by (simp add: getitem_def add_magnitude_column_def PointSourceCatalog_def)
qed

lemma sample_response:
  "fst (Irsa_query_region sample_services pos c sp w s) = Inr sample_table"
  by (simp add: Irsa_query_region_response sample_services_def)

lemma sample_columns:
  "sample_table ''ra'' = Some \<lparr>data = [10, 10.1, 10.2], mask = [False, True, False]\<rparr>"
  "sample_table ''dec'' = Some \<lparr>data = [- 5, - 5.1, - 5.2], mask = [False, False, False]\<rparr>"
  "sample_table ''j_m'' = Some \<lparr>data = [12, 13, 14], mask = [False, False, True]\<rparr>"
  "sample_table ''h_m'' = Some \<lparr>data = [11.5, 12.5, 13.5], mask = [False, False, False]\<rparr>"
  "sample_table ''k_m'' = Some \<lparr>data = [11, 12, 13], mask = [False, False, False]\<rparr>"
  by (simp_all add: sample_table_def)

lemma sample_table_raises:
  "fst (get_2MASS_ptsrc_catalog sample_services 10 (- 5) 60 sample_world) = Inl ValueError"
  by (rule get_2MASS_flagged_position_raises
      [OF sample_response sample_columns sample_table_rows, of 1]) simp_all








lemma crowded_response:
  "fst (Irsa_query_region crowded_services pos c sp w (s\<lparr>Irsa_ROW_LIMIT := 1000000\<rparr>)) =
     Inr (table_head 1000000 crowded_box)"
  by (simp add: Irsa_query_region_response crowded_services_def row_limited_service_def)

text \<open>
  Claim C2. The query should return all sources of the box with no cap on their number.
  The function sets the row limit of the client to 1000000 and the request carries that
  limit; against a service that honours it, a box of 1000001 sources gives a catalog of
  1000000 sources.
\<close>

theorem get_2MASS_row_limit_caps_results:
  "map_option (\<lambda>c. length (data c)) (crowded_box ''ra'') = Some 1000001 \<and>
   map iq_row_limit
     (irsa_requests (snd (get_2MASS_ptsrc_catalog crowded_services 0 0 3600 sample_world))) =
     [1000000] \<and>
   (\<exists>cat. fst (get_2MASS_ptsrc_catalog crowded_services 0 0 3600 sample_world) = Inr cat \<and>
      length (cat_ra cat) = 1000000 \<and> length (cat_dec cat) = 1000000)"
proof -
  let ?c = "\<lparr>data = replicate 1000000 0, mask = replicate 1000000 False\<rparr>"
  have cols: "table_head 1000000 crowded_box ''ra'' = Some ?c"
    "table_head 1000000 crowded_box ''dec'' = Some ?c"
    "table_head 1000000 crowded_box ''j_m'' = Some ?c"
    "table_head 1000000 crowded_box ''h_m'' = Some ?c"
    "table_head 1000000 crowded_box ''k_m'' = Some ?c"
    by (simp_all add: table_head_def crowded_box_def)
  have rows: "table_rows (table_head 1000000 crowded_box) 1000000"
    by (auto simp: table_rows_def table_head_def crowded_box_def split: if_splits)
  have "\<exists>cat. fst (get_2MASS_ptsrc_catalog crowded_services 0 0 3600 sample_world) = Inr cat \<and>
      length (cat_ra cat) = 1000000 \<and> length (cat_dec cat) = 1000000"
    unfolding get_2MASS_all_valid [OF crowded_response cols rows, simplified]
    by simp
  moreover have "map_option (\<lambda>c. length (data c)) (crowded_box ''ra'') = Some 1000001"
    by (simp add: crowded_box_def)
  moreover have "map iq_row_limit
     (irsa_requests (snd (get_2MASS_ptsrc_catalog crowded_services 0 0 3600 sample_world))) =
     [1000000]"
    by (simp add: get_2MASS_state sample_world_def)
  ultimately show ?thesis by blast
qed

section \<open>The random position generator\<close>

lemma unit_draw_bounds:
  fixes r a b :: real
  assumes "0 \<le> r" "r < 1" "a \<le> b"
  shows "a \<le> r * (b - a) + a" and "r * (b - a) + a \<le> b"
proof -
  from assms have d: "0 \<le> b - a" by simp
  with assms(1) have "0 \<le> r * (b - a)" by (rule mult_nonneg_nonneg)
  then show "a \<le> r * (b - a) + a" by simp
  from assms(1,2) d have "r * (b - a) \<le> 1 * (b - a)"
    by (intro mult_right_mono) simp_all
  then show "r * (b - a) + a \<le> b" by simp
qed

lemma generate_ra_dec_values:
  "fst (generate_ra_dec n ra_min ra_max dec_min dec_max s) =
     (map (\<lambda>i. random_state s i *\<^sub>R (ra_max - ra_min) + ra_min) [0..<n],
      map (\<lambda>i. random_state s (i + n) *\<^sub>R (dec_max - dec_min) + dec_min) [0..<n])"
  by (simp add: generate_ra_dec_def np_random_random_def Let_def comp_def)

lemma generate_ra_dec_requests:
  "besancon_requests (snd (generate_ra_dec n ra_min ra_max dec_min dec_max s)) =
     besancon_requests s"
  "irsa_requests (snd (generate_ra_dec n ra_min ra_max dec_min dec_max s)) = irsa_requests s"
  by (simp_all add: generate_ra_dec_def np_random_random_def Let_def)

text \<open>
  Claim C9. Called with count 0, \<open>generate_ra_dec\<close> returns two empty sequences. Called
  with count \<open>N\<close> and bounds \<open>ra_min \<le> ra_max\<close> and \<open>dec_min \<le> dec_max\<close>, it returns two
  sequences of length exactly \<open>N\<close> whose values lie between the respective bounds, for
  draws of the generator in the half-open unit interval.
\<close>

theorem generate_ra_dec_count_and_bounds:
  fixes ra_min ra_max dec_min dec_max :: real
  assumes draws: "unit_interval_draws s"
    and ra: "ra_min \<le> ra_max" and dec: "dec_min \<le> dec_max"
  shows "fst (generate_ra_dec 0 ra_min ra_max dec_min dec_max s) = ([], []) \<and>
         (\<exists>ra_list dec_list.
            fst (generate_ra_dec N ra_min ra_max dec_min dec_max s) = (ra_list, dec_list) \<and>
            length ra_list = N \<and> length dec_list = N \<and>
            (\<forall>x\<in>set ra_list. ra_min \<le> x \<and> x \<le> ra_max) \<and>
            (\<forall>y\<in>set dec_list. dec_min \<le> y \<and> y \<le> dec_max))"
proof -
  have unit: "0 \<le> random_state s i \<and> random_state s i < 1" for i
    using draws by (simp add: unit_interval_draws_def)
  have "ra_min \<le> random_state s i * (ra_max - ra_min) + ra_min \<and>
        random_state s i * (ra_max - ra_min) + ra_min \<le> ra_max" for i
    using unit_draw_bounds [of "random_state s i" ra_min ra_max] unit ra by simp
  moreover have "dec_min \<le> random_state s i * (dec_max - dec_min) + dec_min \<and>
        random_state s i * (dec_max - dec_min) + dec_min \<le> dec_max" for i
    using unit_draw_bounds [of "random_state s i" dec_min dec_max] unit dec by simp
  ultimately show ?thesis
    by (simp add: generate_ra_dec_values)
qed

theorem generate_ra_dec_count_and_bounds_witness:
  "fst (generate_ra_dec 0 (10::real) 11 (- 5) (- 4) sample_world) = ([], []) \<and>
   fst (generate_ra_dec 2 (10::real) 11 (- 5) (- 4) sample_world) =
     ([10.25, 10.75], [- 4.75, - 4.25])"
proof -
  have draws: "unit_interval_draws sample_world"
    by (simp add: unit_interval_draws_def sample_world_def)
  have two: "[0..<2] = [0, 1]"
    by (simp add: upt_rec)
  from generate_ra_dec_count_and_bounds [OF draws, of 10 11 "- 5" "- 4" 2]
  show ?thesis
    by (simp add: generate_ra_dec_values two sample_world_def)
qed


section \<open>The stellar-population model query\<close>

lemma broadcast2_same_length:
  "length xs = length ys \<Longrightarrow> broadcast2 f xs ys = Inr (map2 f xs ys)"
  by (simp add: broadcast2_def)

lemma besancon_Inr:
  fixes box_width :: real
  defines "bw \<equiv> Quantity box_width u_arcsec"
  assumes "besancon env ra dec box_width coords email kmag_limits s = (Inr cat, s')"
  shows "\<exists>coord1 coord2 model v v_k j_k j_h j_l k_mags j_mags h_mags l_mags ra_values dec_values.
     (coords = ''ra_dec'' \<and>
        galactic env (Quantity ra u_deg) (Quantity dec u_deg) = Inr (coord1, coord2) \<or>
      coords = ''galactic'' \<and> coord1 = ra \<and> coord2 = dec) \<and>
     besancon_model env
       \<lparr>bq_glon = coord1, bq_glat = coord2, bq_smallfield = True,
        bq_area = a_value (area_to (times_quantity bw bw) (u_deg, u_deg)),
        bq_colors_limits = [(''J-H'', - 99, 99), (''J-K'', - 99, 99),
                            (''J-L'', - 99, 99), (''V-K'', - 99, 99)],
        bq_mag_limits = [(''K'', kmag_limits)],
        bq_retrieve_file = True, bq_email = email\<rparr> = Inr model \<and>
     model ''V'' = Some v \<and> model ''V-K'' = Some v_k \<and> model ''J-K'' = Some j_k \<and>
     model ''J-H'' = Some j_h \<and> model ''J-L'' = Some j_l \<and>
     broadcast2 (-) v v_k = Inr k_mags \<and> broadcast2 (+) k_mags j_k = Inr j_mags \<and>
     broadcast2 (-) j_mags j_h = Inr h_mags \<and> broadcast2 (-) j_mags j_l = Inr l_mags \<and>
     generate_ra_dec (length k_mags)
        (Quantity ra u_deg - times_number bw 0.5) (Quantity ra u_deg + times_number bw 0.5)
        (Quantity dec u_deg - times_number bw 0.5) (Quantity dec u_deg + times_number bw 0.5)
        (s\<lparr>besancon_requests := besancon_requests s @
           [\<lparr>bq_glon = coord1, bq_glat = coord2, bq_smallfield = True,
             bq_area = a_value (area_to (times_quantity bw bw) (u_deg, u_deg)),
             bq_colors_limits = [(''J-H'', - 99, 99), (''J-K'', - 99, 99),
                                 (''J-L'', - 99, 99), (''V-K'', - 99, 99)],
             bq_mag_limits = [(''K'', kmag_limits)],
             bq_retrieve_file = True, bq_email = email\<rparr>]\<rparr>) = ((ra_values, dec_values), s') \<and>
     cat = \<lparr>cat_ra = ra_values, cat_dec = dec_values,
            magnitudes = [(''Besancon'', ''j'') \<mapsto> j_mags, (''Besancon'', ''h'') \<mapsto> h_mags,
                          (''Besancon'', ''k'') \<mapsto> k_mags, (''Besancon'', ''l'') \<mapsto> l_mags]\<rparr>"
  using assms(2)
  unfolding besancon_def Besancon_query_def getitem_def PointSourceCatalog_def
    add_magnitude_column_def Let_def bw_def
  by (auto split: sum.splits option.splits if_splits prod.splits)


lemma besancon_requests_after:
  fixes box_width :: real
  assumes "coords = ''ra_dec'' \<and>
        galactic env (Quantity ra u_deg) (Quantity dec u_deg) = Inr (coord1, coord2) \<or>
      coords = ''galactic'' \<and> coord1 = ra \<and> coord2 = dec"
  shows "besancon_requests (snd (besancon env ra dec box_width coords email kmag_limits s)) =
     besancon_requests s @
       [\<lparr>bq_glon = coord1, bq_glat = coord2, bq_smallfield = True,
         bq_area = a_value (area_to (times_quantity (Quantity box_width u_arcsec)
                     (Quantity box_width u_arcsec)) (u_deg, u_deg)),
         bq_colors_limits = [(''J-H'', - 99, 99), (''J-K'', - 99, 99),
                             (''J-L'', - 99, 99), (''V-K'', - 99, 99)],
         bq_mag_limits = [(''K'', kmag_limits)],
         bq_retrieve_file = True, bq_email = email\<rparr>]"
proof -
  from assms show ?thesis
  proof
    assume "coords = ''ra_dec'' \<and>
        galactic env (Quantity ra u_deg) (Quantity dec u_deg) = Inr (coord1, coord2)"
    then show ?thesis
      unfolding besancon_def Besancon_query_def Let_def
      by (simp add: generate_ra_dec_requests split_beta split: sum.splits)
  next
    assume "coords = ''galactic'' \<and> coord1 = ra \<and> coord2 = dec"
    then show ?thesis
      unfolding besancon_def Besancon_query_def Let_def
      by (simp add: generate_ra_dec_requests split_beta split: sum.splits)
  qed
qed

lemma sample_besancon:
  "fst (besancon sample_services 45 0 3600 ''galactic'' ''user@example.org'' (10, 29)
          sample_world) =
     Inr \<lparr>cat_ra = [Quantity 44.75 u_deg, Quantity 45.25 u_deg],
          cat_dec = [Quantity (- 0.25) u_deg, Quantity 0.25 u_deg],
          magnitudes = [(''Besancon'', ''j'') \<mapsto> [14, 15.75],
                        (''Besancon'', ''h'') \<mapsto> [13.5, 15.5],
                        (''Besancon'', ''k'') \<mapsto> [13, 15],
                        (''Besancon'', ''l'') \<mapsto> [12.5, 14.75]]\<rparr>"
proof -
  have two: "[0..<2] = [0, 1]"
    by (simp add: upt_rec)
  show ?thesis
    by (simp add: besancon_def Besancon_query_def sample_services_def sample_model_def
        getitem_def broadcast2_def generate_ra_dec_def np_random_random_def
        PointSourceCatalog_def add_magnitude_column_def sample_world_def two
        plus_quantity_def minus_quantity_def scaleR_quantity_def times_number_def to_def
        Let_def)
qed

lemma quantity_draw_bounds:
  assumes "0 \<le> r" "r < 1" "0 \<le> box_width"
  shows "q_unit (r *\<^sub>R ((Quantity c u_deg + times_number (Quantity box_width u_arcsec) 0.5) -
                       (Quantity c u_deg - times_number (Quantity box_width u_arcsec) 0.5)) +
                (Quantity c u_deg - times_number (Quantity box_width u_arcsec) 0.5)) = u_deg"
    and "c - box_width / 3600 / 2 \<le>
         q_value (r *\<^sub>R ((Quantity c u_deg + times_number (Quantity box_width u_arcsec) 0.5) -
                       (Quantity c u_deg - times_number (Quantity box_width u_arcsec) 0.5)) +
                (Quantity c u_deg - times_number (Quantity box_width u_arcsec) 0.5))"
    and "q_value (r *\<^sub>R ((Quantity c u_deg + times_number (Quantity box_width u_arcsec) 0.5) -
                       (Quantity c u_deg - times_number (Quantity box_width u_arcsec) 0.5)) +
                (Quantity c u_deg - times_number (Quantity box_width u_arcsec) 0.5))
         \<le> c + box_width / 3600 / 2"
proof -
  let ?h = "box_width / 3600 / 2"
  have v: "q_value (r *\<^sub>R ((Quantity c u_deg + times_number (Quantity box_width u_arcsec) 0.5) -
                       (Quantity c u_deg - times_number (Quantity box_width u_arcsec) 0.5)) +
                (Quantity c u_deg - times_number (Quantity box_width u_arcsec) 0.5))
      = r * ((c + ?h) - (c - ?h)) + (c - ?h)"
    by (simp add: plus_quantity_def minus_quantity_def scaleR_quantity_def times_number_def to_def)
  have le: "c - ?h \<le> c + ?h"
    using assms(3) by simp
  show "q_unit (r *\<^sub>R ((Quantity c u_deg + times_number (Quantity box_width u_arcsec) 0.5) -
                       (Quantity c u_deg - times_number (Quantity box_width u_arcsec) 0.5)) +
                (Quantity c u_deg - times_number (Quantity box_width u_arcsec) 0.5)) = u_deg"
    by (simp add: plus_quantity_def minus_quantity_def scaleR_quantity_def)
  show "c - ?h \<le>
         q_value (r *\<^sub>R ((Quantity c u_deg + times_number (Quantity box_width u_arcsec) 0.5) -
                       (Quantity c u_deg - times_number (Quantity box_width u_arcsec) 0.5)) +
                (Quantity c u_deg - times_number (Quantity box_width u_arcsec) 0.5))"
    unfolding v using unit_draw_bounds(1) [OF assms(1,2) le] .
  show "q_value (r *\<^sub>R ((Quantity c u_deg + times_number (Quantity box_width u_arcsec) 0.5) -
                       (Quantity c u_deg - times_number (Quantity box_width u_arcsec) 0.5)) +
                (Quantity c u_deg - times_number (Quantity box_width u_arcsec) 0.5))
         \<le> c + ?h"
    unfolding v using unit_draw_bounds(2) [OF assms(1,2) le] .
qed

text \<open>
  Claim C3. For every row of the table that the model service returns, the four
  magnitude columns of the catalog are derived as \<open>K = V - (V-K)\<close>, \<open>J = K + (J-K)\<close>,
  \<open>H = J - (J-H)\<close> and \<open>L = J - (J-L)\<close>; a row with \<open>V = 15.0\<close>, \<open>V-K = 2.0\<close>,
  \<open>J-K = 1.0\<close>, \<open>J-H = 0.5\<close> and \<open>J-L = 1.5\<close> gets \<open>K = 13.0\<close>, \<open>J = 14.0\<close>, \<open>H = 13.5\<close>
  and \<open>L = 12.5\<close>.
\<close>

theorem besancon_magnitude_derivation:
  assumes result: "besancon env ra dec box_width coords email kmag_limits s = (Inr cat, s')"
    and answer: "besancon_model env (last (besancon_requests s')) = Inr model"
    and cols: "model ''V'' = Some v" "model ''V-K'' = Some v_k" "model ''J-K'' = Some j_k"
      "model ''J-H'' = Some j_h" "model ''J-L'' = Some j_l"
    and rows: "length v = n" "length v_k = n" "length j_k = n" "length j_h = n"
      "length j_l = n"
  shows "\<exists>k j h l.
     magnitudes cat (''Besancon'', ''k'') = Some k \<and>
     magnitudes cat (''Besancon'', ''j'') = Some j \<and>
     magnitudes cat (''Besancon'', ''h'') = Some h \<and>
     magnitudes cat (''Besancon'', ''l'') = Some l \<and>
     length k = n \<and> length j = n \<and> length h = n \<and> length l = n \<and>
     (\<forall>i<n. k ! i = v ! i - v_k ! i \<and> j ! i = k ! i + j_k ! i \<and>
            h ! i = j ! i - j_h ! i \<and> l ! i = j ! i - j_l ! i \<and>
            (v ! i = 15.0 \<and> v_k ! i = 2.0 \<and> j_k ! i = 1.0 \<and> j_h ! i = 0.5 \<and>
             j_l ! i = 1.5 \<longrightarrow>
             k ! i = 13.0 \<and> j ! i = 14.0 \<and> h ! i = 13.5 \<and> l ! i = 12.5))"
proof -
  from besancon_Inr [OF result] obtain q model' v' v_k' j_k' j_h' j_l'
      k_mags j_mags h_mags l_mags ra_values dec_values min_ra max_ra min_dec max_dec
    where q: "besancon_model env q = Inr model'"
      and cols': "model' ''V'' = Some v'" "model' ''V-K'' = Some v_k'"
        "model' ''J-K'' = Some j_k'" "model' ''J-H'' = Some j_h'" "model' ''J-L'' = Some j_l'"
      and mags: "broadcast2 (-) v' v_k' = Inr k_mags" "broadcast2 (+) k_mags j_k' = Inr j_mags"
        "broadcast2 (-) j_mags j_h' = Inr h_mags" "broadcast2 (-) j_mags j_l' = Inr l_mags"
      and gen: "generate_ra_dec (length k_mags) min_ra max_ra min_dec max_dec
          (s\<lparr>besancon_requests := besancon_requests s @ [q]\<rparr>) = ((ra_values, dec_values), s')"
      and cat: "cat = \<lparr>cat_ra = ra_values, cat_dec = dec_values,
            magnitudes = [(''Besancon'', ''j'') \<mapsto> j_mags, (''Besancon'', ''h'') \<mapsto> h_mags,
                          (''Besancon'', ''k'') \<mapsto> k_mags, (''Besancon'', ''l'') \<mapsto> l_mags]\<rparr>"
    by blast
  have "besancon_requests s' = besancon_requests s @ [q]"
    using generate_ra_dec_requests(1) [of "length k_mags" min_ra max_ra min_dec max_dec
        "s\<lparr>besancon_requests := besancon_requests s @ [q]\<rparr>"] gen
    by simp
  with answer q have "model' = model"
    by simp
  with cols cols' have same: "v' = v" "v_k' = v_k" "j_k' = j_k" "j_h' = j_h" "j_l' = j_l"
    by simp_all
  have k: "k_mags = map2 (-) v v_k"
    using mags(1) rows by (simp add: same broadcast2_same_length)
  then have j: "j_mags = map2 (+) k_mags j_k"
    using mags(2) rows by (simp add: same broadcast2_same_length)
  then have h: "h_mags = map2 (-) j_mags j_h" and l: "l_mags = map2 (-) j_mags j_l"
    using mags(3,4) rows k by (simp_all add: same broadcast2_same_length)
  have len: "length k_mags = n" "length j_mags = n" "length h_mags = n" "length l_mags = n"
    using rows by (simp_all add: k j h l)
  have row: "k_mags ! i = v ! i - v_k ! i \<and> j_mags ! i = k_mags ! i + j_k ! i \<and>
      h_mags ! i = j_mags ! i - j_h ! i \<and> l_mags ! i = j_mags ! i - j_l ! i" if "i < n" for i
    using that rows len by (simp add: k j h l)
  have "\<forall>i<n. k_mags ! i = v ! i - v_k ! i \<and> j_mags ! i = k_mags ! i + j_k ! i \<and>
            h_mags ! i = j_mags ! i - j_h ! i \<and> l_mags ! i = j_mags ! i - j_l ! i \<and>
            (v ! i = 15.0 \<and> v_k ! i = 2.0 \<and> j_k ! i = 1.0 \<and> j_h ! i = 0.5 \<and>
             j_l ! i = 1.5 \<longrightarrow>
             k_mags ! i = 13.0 \<and> j_mags ! i = 14.0 \<and> h_mags ! i = 13.5 \<and> l_mags ! i = 12.5)"
  proof (intro allI impI)
    fix i assume "i < n"
    from row [OF this] show "k_mags ! i = v ! i - v_k ! i \<and> j_mags ! i = k_mags ! i + j_k ! i \<and>
            h_mags ! i = j_mags ! i - j_h ! i \<and> l_mags ! i = j_mags ! i - j_l ! i \<and>
            (v ! i = 15.0 \<and> v_k ! i = 2.0 \<and> j_k ! i = 1.0 \<and> j_h ! i = 0.5 \<and>
             j_l ! i = 1.5 \<longrightarrow>
             k_mags ! i = 13.0 \<and> j_mags ! i = 14.0 \<and> h_mags ! i = 13.5 \<and> l_mags ! i = 12.5)"
      by simp
  qed
  moreover have "magnitudes cat (''Besancon'', ''k'') = Some k_mags"
    "magnitudes cat (''Besancon'', ''j'') = Some j_mags"
    "magnitudes cat (''Besancon'', ''h'') = Some h_mags"
    "magnitudes cat (''Besancon'', ''l'') = Some l_mags"
    by (simp_all add: cat)
  ultimately show ?thesis
    using len by blast
qed


theorem besancon_magnitude_derivation_witness:
  "\<exists>cat k j h l.
     fst (besancon sample_services 45 0 3600 ''galactic'' ''user@example.org'' (10, 29)
            sample_world) = Inr cat \<and>
     magnitudes cat (''Besancon'', ''k'') = Some k \<and>
     magnitudes cat (''Besancon'', ''j'') = Some j \<and>
     magnitudes cat (''Besancon'', ''h'') = Some h \<and>
     magnitudes cat (''Besancon'', ''l'') = Some l \<and>
     length k = 2 \<and> length j = 2 \<and> length h = 2 \<and> length l = 2 \<and>
     k ! 0 = 13.0 \<and> j ! 0 = 14.0 \<and> h ! 0 = 13.5 \<and> l ! 0 = 12.5"
proof -
  let ?run = "besancon sample_services 45 0 3600 ''galactic'' ''user@example.org'' (10, 29)
      sample_world"
  obtain cat where cat: "fst ?run = Inr cat"
    using sample_besancon by blast
  then have result: "?run = (Inr cat, snd ?run)"
    by (metis prod.collapse)
  have answer: "besancon_model sample_services (last (besancon_requests (snd ?run))) =
      Inr sample_model"
    by (simp add: sample_services_def)
  have cols: "sample_model ''V'' = Some [15.0, 18]" "sample_model ''V-K'' = Some [2.0, 3]"
    "sample_model ''J-K'' = Some [1.0, 0.75]" "sample_model ''J-H'' = Some [0.5, 0.25]"
    "sample_model ''J-L'' = Some [1.5, 1]"
    by (simp_all add: sample_model_def)
  from besancon_magnitude_derivation [OF result answer cols, of 2]
  obtain k j h l where
    "magnitudes cat (''Besancon'', ''k'') = Some k" "magnitudes cat (''Besancon'', ''j'') = Some j"
    "magnitudes cat (''Besancon'', ''h'') = Some h" "magnitudes cat (''Besancon'', ''l'') = Some l"
    "length k = 2" "length j = 2" "length h = 2" "length l = 2"
    and rows: "\<forall>i<2. k ! i = [15.0, 18] ! i - [2.0, 3] ! i \<and> j ! i = k ! i + [1.0, 0.75] ! i \<and>
            h ! i = j ! i - [0.5, 0.25] ! i \<and> l ! i = j ! i - [1.5, 1] ! i \<and>
            ([15.0, 18] ! i = (15.0::real) \<and> [2.0, 3] ! i = (2.0::real) \<and>
             [1.0, 0.75] ! i = (1.0::real) \<and> [0.5, 0.25] ! i = (0.5::real) \<and>
             [1.5, 1] ! i = (1.5::real) \<longrightarrow>
             k ! i = 13.0 \<and> j ! i = 14.0 \<and> h ! i = 13.5 \<and> l ! i = 12.5)"
    by auto
  moreover from rows have "k ! 0 = 13.0 \<and> j ! 0 = 14.0 \<and> h ! 0 = 13.5 \<and> l ! 0 = 12.5"
    by simp
  ultimately show ?thesis
    using cat by blast
qed

text \<open>
  Claim C4. Every star of a catalog that \<open>besancon\<close> returns has a right ascension, in
  degrees, within half the box width of the requested centre, and a declination within
  half the box width of the requested centre declination. The box width is given in
  arcseconds and is not negative; the half width in degrees is \<open>box_width / 3600 / 2\<close>.
\<close>

theorem besancon_positions_in_box:
  assumes draws: "unit_interval_draws s" and width: "0 \<le> box_width"
    and result: "besancon env ra dec box_width coords email kmag_limits s = (Inr cat, s')"
  shows "length (cat_dec cat) = length (cat_ra cat) \<and>
         (\<forall>p\<in>set (cat_ra cat). q_unit p = u_deg \<and>
            ra - box_width / 3600 / 2 \<le> q_value p \<and> q_value p \<le> ra + box_width / 3600 / 2) \<and>
         (\<forall>p\<in>set (cat_dec cat). q_unit p = u_deg \<and>
            dec - box_width / 3600 / 2 \<le> q_value p \<and> q_value p \<le> dec + box_width / 3600 / 2)"
proof -
  let ?bw = "Quantity box_width u_arcsec"
  from besancon_Inr [OF result] obtain q n ra_values dec_values
    where gen: "generate_ra_dec n
        (Quantity ra u_deg - times_number ?bw 0.5) (Quantity ra u_deg + times_number ?bw 0.5)
        (Quantity dec u_deg - times_number ?bw 0.5) (Quantity dec u_deg + times_number ?bw 0.5)
        (s\<lparr>besancon_requests := besancon_requests s @ [q]\<rparr>) = ((ra_values, dec_values), s')"
      and cat: "cat_ra cat = ra_values" "cat_dec cat = dec_values"
    by fastforce
  have unit: "0 \<le> random_state s i \<and> random_state s i < 1" for i
    using draws by (simp add: unit_interval_draws_def)
  from gen generate_ra_dec_values [of n
        "Quantity ra u_deg - times_number ?bw 0.5" "Quantity ra u_deg + times_number ?bw 0.5"
        "Quantity dec u_deg - times_number ?bw 0.5" "Quantity dec u_deg + times_number ?bw 0.5"
        "s\<lparr>besancon_requests := besancon_requests s @ [q]\<rparr>"]
  have drawn: "ra_values = map (\<lambda>i. random_state s i *\<^sub>R
          ((Quantity ra u_deg + times_number ?bw 0.5) - (Quantity ra u_deg - times_number ?bw 0.5))
          + (Quantity ra u_deg - times_number ?bw 0.5)) [0..<n]"
    "dec_values = map (\<lambda>i. random_state s (i + n) *\<^sub>R
          ((Quantity dec u_deg + times_number ?bw 0.5) - (Quantity dec u_deg - times_number ?bw 0.5))
          + (Quantity dec u_deg - times_number ?bw 0.5)) [0..<n]"
    by simp_all
  have "length (cat_dec cat) = length (cat_ra cat)"
    by (simp add: cat drawn)
  moreover have "\<forall>p\<in>set (cat_ra cat). q_unit p = u_deg \<and>
            ra - box_width / 3600 / 2 \<le> q_value p \<and> q_value p \<le> ra + box_width / 3600 / 2"
    unfolding cat drawn using quantity_draw_bounds [OF _ _ width] unit
    by (simp del: upt_Suc)
  moreover have "\<forall>p\<in>set (cat_dec cat). q_unit p = u_deg \<and>
            dec - box_width / 3600 / 2 \<le> q_value p \<and> q_value p \<le> dec + box_width / 3600 / 2"
    unfolding cat drawn using quantity_draw_bounds [OF _ _ width] unit
    by (simp del: upt_Suc)
  ultimately show ?thesis
    by blast
qed

theorem besancon_positions_in_box_witness:
  "\<exists>cat. fst (besancon sample_services 45 0 3600 ''galactic'' ''user@example.org'' (10, 29)
            sample_world) = Inr cat \<and>
     cat_ra cat = [Quantity 44.75 u_deg, Quantity 45.25 u_deg] \<and>
     (\<forall>p\<in>set (cat_ra cat). 44.5 \<le> q_value p \<and> q_value p \<le> 45.5) \<and>
     (\<forall>p\<in>set (cat_dec cat). - 0.5 \<le> q_value p \<and> q_value p \<le> 0.5)"
proof -
  let ?run = "besancon sample_services 45 0 3600 ''galactic'' ''user@example.org'' (10, 29)
      sample_world"
  obtain cat where cat: "fst ?run = Inr cat"
      and ra: "cat_ra cat = [Quantity 44.75 u_deg, Quantity 45.25 u_deg]"
    using sample_besancon by simp
  then have result: "?run = (Inr cat, snd ?run)"
    by (metis prod.collapse)
  have draws: "unit_interval_draws sample_world"
    by (simp add: unit_interval_draws_def sample_world_def)
  have width: "(0::real) \<le> 3600"
    by simp
  from besancon_positions_in_box [OF draws width result]
  have "(\<forall>p\<in>set (cat_ra cat). 44.5 \<le> q_value p \<and> q_value p \<le> 45.5) \<and>
     (\<forall>p\<in>set (cat_dec cat). - 0.5 \<le> q_value p \<and> q_value p \<le> 0.5)"
    by simp
  with cat ra show ?thesis
    by blast
qed

text \<open>
  Claim C5. A call of \<open>besancon\<close> with a \<open>coords\<close> string other than \<open>ra_dec\<close> and
  \<open>galactic\<close> should raise an invalid-argument error. With \<open>coords = equatorial\<close> the
  function raises \<open>UnboundLocalError\<close> for the variable \<open>coord1\<close>, which neither branch
  has bound, and not \<open>ValueError\<close>.
\<close>

theorem besancon_unknown_coords_error:
  "fst (besancon sample_services 45 0 3600 ''equatorial'' ''user@example.org'' (10, 29)
          sample_world) = Inl (UnboundLocalError ''coord1'') \<and>
   fst (besancon sample_services 45 0 3600 ''equatorial'' ''user@example.org'' (10, 29)
          sample_world) \<noteq> Inl ValueError"
  by (simp add: besancon_def)

text \<open>
  Claim C8. When the coordinates are resolved, \<open>besancon\<close> sends one request to the
  model service, and the area of the request is the square of the box width converted
  to square degrees, \<open>box_width * box_width / (3600 * 3600)\<close>; for a box width of 3600
  arcseconds the area is exactly 1 square degree.
\<close>

theorem besancon_area_square_degrees:
  assumes "coords = ''galactic'' \<or>
           coords = ''ra_dec'' \<and>
             (\<exists>lb. galactic env (Quantity ra u_deg) (Quantity dec u_deg) = Inr lb)"
  shows "(\<exists>q. besancon_requests (snd (besancon env ra dec box_width coords email kmag_limits s)) =
               besancon_requests s @ [q] \<and>
             bq_area q = box_width * box_width / (3600 * 3600)) \<and>
         (\<exists>q. besancon_requests (snd (besancon env ra dec 3600 coords email kmag_limits s)) =
               besancon_requests s @ [q] \<and>
             bq_area q = 1)"
proof -
  from assms obtain coord1 coord2 where
    c: "coords = ''ra_dec'' \<and>
        galactic env (Quantity ra u_deg) (Quantity dec u_deg) = Inr (coord1, coord2) \<or>
      coords = ''galactic'' \<and> coord1 = ra \<and> coord2 = dec"
    by auto
  have area: "a_value (area_to (times_quantity (Quantity w u_arcsec) (Quantity w u_arcsec))
      (u_deg, u_deg)) = w * w / (3600 * 3600)" for w
    by (simp add: area_to_def times_quantity_def)
  show ?thesis
    by (simp add: besancon_requests_after [OF c] area)
qed

theorem besancon_area_square_degrees_witness:
  "\<exists>q. besancon_requests (snd (besancon sample_services 45 0 3600 ''galactic''
          ''user@example.org'' (10, 29) sample_world)) = [q] \<and> bq_area q = 1"
  using besancon_area_square_degrees [of "''galactic''" sample_services 45 0 7200
      "''user@example.org''" "(10, 29)" sample_world]
  by (simp add: sample_world_def)

text \<open>
  Claim C10. Called with a \<open>coords\<close> string other than \<open>ra_dec\<close> and \<open>galactic\<close>,
  \<open>besancon\<close> fails with the state of the process unchanged: the error is raised while
  the arguments of the model-service call are evaluated, and no request is sent.
\<close>

theorem besancon_unknown_coords_no_request:
  assumes "coords \<noteq> ''ra_dec''" and "coords \<noteq> ''galactic''"
  shows "besancon env ra dec box_width coords email kmag_limits s =
           (Inl (UnboundLocalError ''coord1''), s) \<and>
         besancon_requests (snd (besancon env ra dec box_width coords email kmag_limits s)) =
           besancon_requests s"
  using assms by (simp add: besancon_def)

theorem besancon_unknown_coords_no_request_witness:
  "besancon sample_services 45 0 3600 ''icrs'' ''user@example.org'' (10, 29) sample_world =
     (Inl (UnboundLocalError ''coord1''), sample_world) \<and>
   besancon_requests (snd (besancon sample_services 45 0 3600 ''icrs'' ''user@example.org''
     (10, 29) sample_world)) = []"
  using besancon_unknown_coords_no_request [of "''icrs''" sample_services 45 0 3600
      "''user@example.org''" "(10, 29)" sample_world]
  by (simp add: sample_world_def)

end
